theory Spec2Isabelle
  imports Main
begin

section \<open>Values\<close>

text \<open>
  The values that \<^verbatim>\<open>json_load\<close> returns and \<^verbatim>\<open>json_dump\<close> accepts: \<^verbatim>\<open>None\<close>,
  booleans, integers, strings, lists and mappings with string keys. Floating point
  numbers are left out of the value universe. A mapping keeps its items in insertion
  order; the flag of \<open>JObj\<close> tells an \<^verbatim>\<open>OrderedDict\<close> (\<open>True\<close>) from a plain
  \<^verbatim>\<open>dict\<close> (\<open>False\<close>), because the two differ in what \<^verbatim>\<open>==\<close> means.
\<close>

datatype json =
    JNull
  | JBool bool
  | JInt int
  | JStr string
  | JArr "json list"
  | JObj bool "(string \<times> json) list"

text \<open>The exceptions that the operations of \<^verbatim>\<open>tsjson.py\<close> can meet.\<close>

datatype exn = KeyError | TypeError | AttributeError | IndexError | ValueError | OSError

text \<open>
  Python's \<^verbatim>\<open>a == b\<close>. \<^verbatim>\<open>True == 1\<close> and \<^verbatim>\<open>False == 0\<close> hold; lists compare
  element by element; two mappings are equal when they have the same number of items and
  every item of the left one has an equal value under the same key on the right, and two
  \<^verbatim>\<open>OrderedDict\<close>s must moreover list their keys in the same order.
\<close>

fun py_eq :: "json \<Rightarrow> json \<Rightarrow> bool" where
  "py_eq JNull JNull = True"
| "py_eq (JBool a) (JBool b) = (a = b)"
| "py_eq (JBool a) (JInt j) = ((if a then 1 else 0) = j)"
| "py_eq (JInt i) (JBool b) = (i = (if b then 1 else 0))"
| "py_eq (JInt i) (JInt j) = (i = j)"
| "py_eq (JStr s) (JStr t) = (s = t)"
| "py_eq (JArr xs) (JArr ys) = list_all2 py_eq xs ys"
| "py_eq (JObj f kvs) (JObj g kws) =
     (length kvs = length kws
      \<and> list_all (\<lambda>(k, v). case map_of kws k of None \<Rightarrow> False | Some v' \<Rightarrow> py_eq v v') kvs
      \<and> (if f \<and> g then map fst kvs = map fst kws else True))"
| "py_eq _ _ = False"

text \<open>Python's truth value: \<^verbatim>\<open>not x\<close> is \<open>\<not> truthy x\<close>.\<close>

fun truthy :: "json \<Rightarrow> bool" where
  "truthy JNull = False"
| "truthy (JBool b) = b"
| "truthy (JInt i) = (i \<noteq> 0)"
| "truthy (JStr s) = (s \<noteq> [])"
| "truthy (JArr xs) = (xs \<noteq> [])"
| "truthy (JObj f kvs) = (kvs \<noteq> [])"

text \<open>\<^verbatim>\<open>x[k]\<close> for a string \<open>k\<close>: only a mapping can be subscripted by a string.\<close>

fun getitem :: "json \<Rightarrow> string \<Rightarrow> exn + json" where
  "getitem (JObj f kvs) k = (case map_of kvs k of None \<Rightarrow> Inl KeyError | Some v \<Rightarrow> Inr v)"
| "getitem _ k = Inl TypeError"

text \<open>
  \<^verbatim>\<open>for x in v\<close>: a list yields its elements, a mapping its keys, a string its
  characters; nothing else can be iterated.
\<close>

fun py_iter :: "json \<Rightarrow> exn + json list" where
  "py_iter (JArr xs) = Inr xs"
| "py_iter (JObj f kvs) = Inr (map (\<lambda>kv. JStr (fst kv)) kvs)"
| "py_iter (JStr s) = Inr (map (\<lambda>c. JStr [c]) s)"
| "py_iter _ = Inl TypeError"

text \<open>
  What \<^verbatim>\<open>json_load(..., object_pairs_hook=OrderedDict)\<close> gives back for the text that
  \<^verbatim>\<open>json_dump\<close> wrote for a value: the same value with every mapping an
  \<^verbatim>\<open>OrderedDict\<close>. Without the hook every mapping is a plain \<^verbatim>\<open>dict\<close>.
\<close>

fun ordered :: "json \<Rightarrow> json" where
  "ordered (JArr xs) = JArr (map ordered xs)"
| "ordered (JObj f kvs) = JObj True (map (\<lambda>(k, v). (k, ordered v)) kvs)"
| "ordered v = v"

fun plain :: "json \<Rightarrow> json" where
  "plain (JArr xs) = JArr (map plain xs)"
| "plain (JObj f kvs) = JObj False (map (\<lambda>(k, v). (k, plain v)) kvs)"
| "plain v = v"

text \<open>A Python mapping has no repeated key, at any depth.\<close>

fun dkeys :: "json \<Rightarrow> bool" where
  "dkeys (JArr xs) = list_all dkeys xs"
| "dkeys (JObj f kvs) = (distinct (map fst kvs) \<and> list_all (\<lambda>(k, v). dkeys v) kvs)"
| "dkeys v = True"

text \<open>A value as the store reads it from disk: every mapping is an \<^verbatim>\<open>OrderedDict\<close>.\<close>

fun all_ordered :: "json \<Rightarrow> bool" where
  "all_ordered (JArr xs) = list_all all_ordered xs"
| "all_ordered (JObj f kvs) = (f \<and> list_all (\<lambda>(k, v). all_ordered v) kvs)"
| "all_ordered v = True"

definition loaded :: "json \<Rightarrow> bool" where
  "loaded v = (dkeys v \<and> all_ordered v)"

section \<open>The file and its environment\<close>

text \<open>
  The store is bound to one path. What the code can observe of it: whether the file
  exists, whether its size is zero, and what \<^verbatim>\<open>json_load\<close> makes of its text.
  \<open>Holds v\<close> is a non-empty file whose text \<^verbatim>\<open>json_load\<close> parses, with the
  \<^verbatim>\<open>OrderedDict\<close> hook, to \<open>v\<close>; \<open>Corrupt\<close> is a non-empty file that
  \<^verbatim>\<open>json_load\<close> rejects. The JSON codec itself is taken as given.
\<close>

datatype fstate = Missing | Blank | Corrupt | Holds json

text \<open>One constructor for each \<^verbatim>\<open>logger.error\<close> call of the source.\<close>

datatype log_entry =
    Traceback exn
  | FailRead
  | FailWrite
  | FailRemove
  | IOFail
  | ConvFail
  | FailWriteContent
  | UidNotFound
  | FailClear

text \<open>
  \<open>dir_present\<close>: \<^verbatim>\<open>os_path.exists(os_path.dirname(file_name))\<close>;
  \<open>mkdir_ok\<close>: whether \<^verbatim>\<open>os_makedirs\<close> of that directory succeeds;
  \<open>io_ok\<close>: whether \<^verbatim>\<open>open\<close> and \<^verbatim>\<open>os_remove\<close> on the path succeed;
  \<open>logged\<close>: what was sent to the logger, oldest first.
\<close>

record world =
  disk :: fstate
  dir_present :: bool
  mkdir_ok :: bool
  io_ok :: bool
  logged :: "log_entry list"

text \<open>
  An operation takes the world and gives back either the exception that left it or the
  value it returned, and the world it leaves behind. The mutex is not modelled: the
  operations run one after the other.
\<close>

type_synonym 'a io = "world \<Rightarrow> (exn + 'a) \<times> world"

definition py_return :: "'a \<Rightarrow> 'a io" where
  "py_return a = (\<lambda>w. (Inr a, w))"

definition py_bind :: "'a io \<Rightarrow> ('a \<Rightarrow> 'b io) \<Rightarrow> 'b io" where
  "py_bind m f = (\<lambda>w. case m w of (Inl e, w') \<Rightarrow> (Inl e, w') | (Inr a, w') \<Rightarrow> f a w')"

text \<open>\<^verbatim>\<open>try: m except ...: h\<close>\<close>

definition py_try :: "'a io \<Rightarrow> (exn \<Rightarrow> 'a io) \<Rightarrow> 'a io" where
  "py_try m h = (\<lambda>w. case m w of (Inl e, w') \<Rightarrow> h e w' | (Inr a, w') \<Rightarrow> (Inr a, w'))"

definition of_result :: "exn + 'a \<Rightarrow> 'a io" where
  "of_result r = (\<lambda>w. (r, w))"

definition logger_error :: "log_entry \<Rightarrow> unit io" where
  "logger_error m = (\<lambda>w. (Inr (), w\<lparr>logged := logged w @ [m]\<rparr>))"

definition os_path_exists :: "bool io" where
  "os_path_exists = (\<lambda>w. (Inr (disk w \<noteq> Missing), w))"

text \<open>The truth value of \<^verbatim>\<open>os_stat(file_name).st_size\<close>.\<close>

definition os_stat_st_size :: "bool io" where
  "os_stat_st_size = (\<lambda>w. case disk w of
       Missing \<Rightarrow> (Inl OSError, w)
     | Blank \<Rightarrow> (Inr False, w)
     | _ \<Rightarrow> (Inr True, w))"

text \<open>
  \<^verbatim>\<open>with open(file_name, "r") as file: json_load(file, ...)\<close>, with or without the
  \<^verbatim>\<open>OrderedDict\<close> hook.
\<close>

definition open_json_load :: "bool \<Rightarrow> json io" where
  "open_json_load hook = (\<lambda>w.
     if \<not> io_ok w then (Inl OSError, w)
     else case disk w of
       Missing \<Rightarrow> (Inl OSError, w)
     | Blank \<Rightarrow> (Inl ValueError, w)
     | Corrupt \<Rightarrow> (Inl ValueError, w)
     | Holds v \<Rightarrow> (Inr (if hook then v else plain v), w))"

text \<open>\<^verbatim>\<open>with open(file_name, "w") as file: json_dump(data, fp=file, ...)\<close>\<close>

definition open_json_dump :: "json \<Rightarrow> unit io" where
  "open_json_dump v = (\<lambda>w.
     if \<not> io_ok w then (Inl OSError, w) else (Inr (), w\<lparr>disk := Holds (ordered v)\<rparr>))"

text \<open>
  The two skeleton texts of the source, \<^verbatim>\<open>{"Content": []}\<close> up to white space,
  parse to the same value.
\<close>

definition skeleton :: json where
  "skeleton = JObj True [(''Content'', JArr [])]"

definition open_write_skeleton :: "unit io" where
  "open_write_skeleton = (\<lambda>w.
     if \<not> io_ok w then (Inl OSError, w) else (Inr (), w\<lparr>disk := Holds skeleton\<rparr>))"


text \<open>
  \<^verbatim>\<open>if not os_path.exists(directory): os_makedirs(directory)\<close>, which \<^verbatim>\<open>write\<close> and
  \<^verbatim>\<open>write_content\<close> run before their \<^verbatim>\<open>try\<close>.
\<close>

definition ensure_directory :: "unit io" where
  "ensure_directory = (\<lambda>w.
     if dir_present w then (Inr (), w)
     else if mkdir_ok w then (Inr (), w\<lparr>dir_present := True\<rparr>)
     else (Inl OSError, w))"

text \<open>\<^verbatim>\<open>logger.error(format_exc()); logger.error(msg); return r\<close>\<close>

definition log_and_return :: "exn \<Rightarrow> log_entry \<Rightarrow> 'a \<Rightarrow> 'a io" where
  "log_and_return e m r =
     py_bind (logger_error (Traceback e)) (\<lambda>_. py_bind (logger_error m) (\<lambda>_. py_return r))"

section \<open>Raw read, write and delete\<close>

definition empty_dict :: json where
  "empty_dict = JObj False []"

text \<open>\<^verbatim>\<open>TSjson.read\<close>: \<^verbatim>\<open>None\<close> is \<open>JNull\<close>.\<close>

definition read :: "json io" where
  "read = py_try
     (py_bind os_path_exists (\<lambda>ex.
        if \<not> ex then py_return empty_dict
        else py_bind os_stat_st_size (\<lambda>sz.
          if \<not> sz then py_return empty_dict
          else open_json_load True)))
     (\<lambda>e. log_and_return e FailRead JNull)"



section \<open>Content operations\<close>

text \<open>\<^verbatim>\<open>TSjson.read_content\<close>\<close>

definition read_content :: "json io" where
  "read_content = py_bind read (\<lambda>r.
     if r = JNull then py_return empty_dict
     else if py_eq r empty_dict then py_return empty_dict
     else of_result (getitem r ''Content''))"





text \<open>\<^verbatim>\<open>TSjson.clear_content\<close>\<close>

definition clear_content :: "bool io" where
  "clear_content = py_try
     (py_bind os_path_exists (\<lambda>ex.
        if \<not> ex then py_return False
        else py_bind os_stat_st_size (\<lambda>sz.
          if \<not> sz then py_return False
          else py_bind open_write_skeleton (\<lambda>_. py_return True))))
     (\<lambda>e. log_and_return e FailClear False)"

section \<open>Lookup and mutation by value or unique identifier\<close>



text \<open>
  The loop of \<^verbatim>\<open>TSjson.is_in_position\<close> with its counter \<open>i\<close>; the result is the pair
  \<^verbatim>\<open>found, i\<close> that the function returns after the loop.
\<close>

fun is_in_position_loop :: "json \<Rightarrow> json list \<Rightarrow> int \<Rightarrow> bool \<times> int" where
  "is_in_position_loop data [] i = (False, i)"
| "is_in_position_loop data (x # xs) i =
     (if py_eq data x then (True, i) else is_in_position_loop data xs (i + 1))"

text \<open>\<^verbatim>\<open>TSjson.is_in_position\<close>\<close>

definition is_in_position :: "json \<Rightarrow> (bool \<times> int) io" where
  "is_in_position data = py_bind read (\<lambda>file_data.
     if file_data = JNull then py_return (False, - 1)
     else if py_eq file_data empty_dict then py_return (False, - 1)
     else py_bind (of_result (getitem file_data ''Content'')) (\<lambda>c.
       py_bind (of_result (py_iter c)) (\<lambda>xs.
         py_return (is_in_position_loop data xs 0))))"






text \<open>
  The loop of \<^verbatim>\<open>TSjson.search_by_uid\<close>; the result is the pair of
  \<^verbatim>\<open>result["found"]\<close> and \<^verbatim>\<open>result["data"]\<close>.
\<close>

fun search_by_uid_loop :: "json \<Rightarrow> string \<Rightarrow> json list \<Rightarrow> exn + (bool \<times> json)" where
  "search_by_uid_loop element_value uid [] = Inr (False, JNull)"
| "search_by_uid_loop element_value uid (element # rest) =
     (if \<not> truthy element then search_by_uid_loop element_value uid rest
      else case getitem element uid of
        Inl e \<Rightarrow> Inl e
      | Inr x \<Rightarrow> if py_eq x element_value then Inr (True, element)
                else search_by_uid_loop element_value uid rest)"

text \<open>\<^verbatim>\<open>TSjson.search_by_uid\<close>\<close>

definition search_by_uid :: "json \<Rightarrow> string \<Rightarrow> (bool \<times> json) io" where
  "search_by_uid element_value uid = py_bind read (\<lambda>file_data.
     if file_data = JNull then py_return (False, JNull)
     else if py_eq file_data empty_dict then py_return (False, JNull)
     else py_bind (of_result (getitem file_data ''Content'')) (\<lambda>c.
       py_bind (of_result (py_iter c)) (\<lambda>elements.
         of_result (search_by_uid_loop element_value uid elements))))"






section \<open>Vocabulary of the claims\<close>

text \<open>
  The record \<open>r\<close> is a mapping that carries the field \<open>uid\<close>, and the value of the field
  is equal to \<open>v\<close>.
\<close>

definition uid_is :: "json \<Rightarrow> string \<Rightarrow> json \<Rightarrow> bool" where
  "uid_is r uid v = (case getitem r uid of Inl e \<Rightarrow> False | Inr x \<Rightarrow> py_eq x v)"

text \<open>
  The record \<open>r\<close> is a mapping that carries the field \<open>uid\<close>, and the value of the field
  is not equal to \<open>v\<close>.
\<close>

definition uid_differs :: "json \<Rightarrow> string \<Rightarrow> json \<Rightarrow> bool" where
  "uid_differs r uid v = (case getitem r uid of Inl e \<Rightarrow> False | Inr x \<Rightarrow> \<not> py_eq x v)"




section \<open>Sample data\<close>

text \<open>A world in which the directory is there and the path can be opened.\<close>

definition working :: "fstate \<Rightarrow> world" where
  "working d = \<lparr>disk = d, dir_present = True, mkdir_ok = True, io_ok = True, logged = []\<rparr>"

text \<open>The document \<^verbatim>\<open>{"Content": xs}\<close> as it is read from disk.\<close>

definition content_doc :: "json list \<Rightarrow> json" where
  "content_doc xs = JObj True [(''Content'', JArr xs)]"

text \<open>The record \<^verbatim>\<open>{"id": i, "v": s}\<close> as it is read from disk.\<close>

definition rec_id :: "int \<Rightarrow> string \<Rightarrow> json" where
  "rec_id i s = JObj True [(''id'', JInt i), (''v'', JStr s)]"



section \<open>Facts about values\<close>






text \<open>
  Whatever the store writes is read back with every mapping an \<^verbatim>\<open>OrderedDict\<close>, and
  the value is the same again when it was read from disk before.
\<close>

lemma all_ordered_ordered: "all_ordered (ordered v)"
  by (induction v) (auto simp: list_all_iff)

lemma dkeys_ordered: "dkeys v \<Longrightarrow> dkeys (ordered v)"
  by (induction v) (auto simp: list_all_iff comp_def case_prod_unfold)

lemma loaded_ordered: "dkeys v \<Longrightarrow> loaded (ordered v)"
  by (simp add: loaded_def all_ordered_ordered dkeys_ordered)


lemma getitem_Inr_not_empty:
  "getitem d k = Inr c \<Longrightarrow> d \<noteq> JNull \<and> \<not> py_eq d empty_dict \<and> truthy d"
  by (cases d) (auto simp: empty_dict_def split: option.splits)

section \<open>Facts about the raw operations\<close>

lemmas io_defs =
  py_return_def py_bind_def py_try_def of_result_def logger_error_def
  os_path_exists_def os_stat_st_size_def open_json_load_def open_json_dump_def
  open_write_skeleton_def ensure_directory_def log_and_return_def




lemma read_Holds: "io_ok w \<Longrightarrow> disk w = Holds d \<Longrightarrow> read w = (Inr d, w)"
  by (simp add: read_def io_defs)





lemma read_content_Holds:
  assumes "io_ok w" "disk w = Holds d" "getitem d ''Content'' = Inr c"
  shows "read_content w = (Inr c, w)"
proof -
  have "read w = (Inr d, w)" using assms by (simp add: read_Holds)
  moreover have "d \<noteq> JNull" "\<not> py_eq d empty_dict"
    using assms(3) getitem_Inr_not_empty by blast+
  ultimately show ?thesis
    using assms(3) by (simp add: read_content_def py_bind_def of_result_def)
qed

lemma clear_content_absent:
  "disk w = Missing \<or> disk w = Blank \<Longrightarrow> clear_content w = (Inr False, w)"
  by (auto simp: clear_content_def io_defs)

lemma clear_content_present:
  "disk w \<noteq> Missing \<Longrightarrow> disk w \<noteq> Blank \<Longrightarrow> io_ok w \<Longrightarrow>
     clear_content w = (Inr True, w\<lparr>disk := Holds skeleton\<rparr>)"
  by (cases "disk w") (simp_all add: clear_content_def io_defs)

lemma clear_content_denied:
  "disk w \<noteq> Missing \<Longrightarrow> disk w \<noteq> Blank \<Longrightarrow> \<not> io_ok w \<Longrightarrow>
     clear_content w = (Inr False, w\<lparr>logged := logged w @ [Traceback OSError, FailClear]\<rparr>)"
  by (cases "disk w") (simp_all add: clear_content_def io_defs)

lemma clear_content_True:
  assumes "fst (clear_content w) = Inr True"
  shows "disk w \<noteq> Missing \<and> disk w \<noteq> Blank \<and> io_ok w"
proof -
  have "disk w \<noteq> Missing" "disk w \<noteq> Blank"
    using assms clear_content_absent[of w] by auto
  moreover from this have "io_ok w"
    using assms clear_content_denied[of w] by (cases "io_ok w") auto
  ultimately show ?thesis by simp
qed

lemma read_content_skeleton:
  "io_ok w \<Longrightarrow> disk w = Holds skeleton \<Longrightarrow> read_content w = (Inr (JArr []), w)"
  by (rule read_content_Holds[where d = skeleton]) (simp_all add: skeleton_def)



section \<open>Facts about the lookup operations\<close>

lemma is_in_position_loop_found:
  "\<forall>p \<in> set pre. \<not> py_eq data p \<Longrightarrow> py_eq data x \<Longrightarrow>
     is_in_position_loop data (pre @ x # post) i = (True, i + int (length pre))"
  by (induction pre arbitrary: i) simp_all

lemma is_in_position_loop_not_found:
  "\<forall>p \<in> set xs. \<not> py_eq data p \<Longrightarrow>
     is_in_position_loop data xs i = (False, i + int (length xs))"
  by (induction xs arbitrary: i) simp_all

lemma is_in_position_Holds:
  assumes "io_ok w" "disk w = Holds d" "getitem d ''Content'' = Inr (JArr xs)"
  shows "is_in_position data w = (Inr (is_in_position_loop data xs 0), w)"
proof -
  have "read w = (Inr d, w)" using assms by (simp add: read_Holds)
  moreover have "d \<noteq> JNull" "\<not> py_eq d empty_dict"
    using assms(3) getitem_Inr_not_empty by blast+
  ultimately show ?thesis
    using assms(3) by (simp add: is_in_position_def py_bind_def of_result_def py_return_def)
qed

lemma is_in_position_found:
  assumes "io_ok w" "disk w = Holds d" "getitem d ''Content'' = Inr (JArr (pre @ x # post))"
    and "\<forall>p \<in> set pre. \<not> py_eq data p" "py_eq data x"
  shows "is_in_position data w = (Inr (True, int (length pre)), w)"
  using assms by (simp add: is_in_position_Holds is_in_position_loop_found)

lemma is_in_position_not_found:
  assumes "io_ok w" "disk w = Holds d" "getitem d ''Content'' = Inr (JArr xs)"
    and "\<forall>p \<in> set xs. \<not> py_eq data p"
  shows "is_in_position data w = (Inr (False, int (length xs)), w)"
  using assms by (simp add: is_in_position_Holds is_in_position_loop_not_found)

lemma uid_is_truthy: "uid_is r uid v \<Longrightarrow> truthy r"
  by (cases r) (auto simp: uid_is_def split: option.splits)


lemma search_by_uid_loop_found:
  "\<forall>p \<in> set pre. \<not> truthy p \<or> uid_differs p uid v \<Longrightarrow> uid_is r uid v \<Longrightarrow>
     search_by_uid_loop v uid (pre @ r # post) = Inr (True, r)"
proof (induction pre)
  case Nil
  then show ?case
    using uid_is_truthy[of r uid v] by (auto simp: uid_is_def split: sum.splits)
next
  case (Cons p pre)
  then show ?case by (auto simp: uid_differs_def split: sum.splits)
qed

lemma search_by_uid_loop_not_found:
  "\<forall>p \<in> set xs. \<not> truthy p \<or> uid_differs p uid v \<Longrightarrow>
     search_by_uid_loop v uid xs = Inr (False, JNull)"
  by (induction xs) (auto simp: uid_differs_def split: sum.splits)

lemma search_by_uid_Holds:
  assumes "io_ok w" "disk w = Holds d" "getitem d ''Content'' = Inr (JArr xs)"
  shows "search_by_uid v uid w = (search_by_uid_loop v uid xs, w)"
proof -
  have "read w = (Inr d, w)" using assms by (simp add: read_Holds)
  moreover have "d \<noteq> JNull" "\<not> py_eq d empty_dict"
    using assms(3) getitem_Inr_not_empty by blast+
  ultimately show ?thesis
    using assms(3) by (simp add: search_by_uid_def py_bind_def of_result_def)
qed









section \<open>Facts about removal\<close>














section \<open>Facts about exceptions and the log\<close>















section \<open>The claims\<close>



text \<open>
  C7. \<^verbatim>\<open>clear_content\<close> returns \<^verbatim>\<open>True\<close> only when the file exists and is not empty;
  it then has overwritten the file with the empty skeleton, and a \<^verbatim>\<open>read_content\<close>
  that follows returns the empty list. On an existing, non-empty file that can be opened it
  does return \<^verbatim>\<open>True\<close>. When the file is missing or empty it returns \<^verbatim>\<open>False\<close> and
  leaves the world as it was: no file is created.
\<close>

theorem clear_content_spec:
  "(fst (clear_content w) = Inr True \<longrightarrow>
      disk w \<noteq> Missing \<and> disk w \<noteq> Blank
      \<and> snd (clear_content w) = w\<lparr>disk := Holds skeleton\<rparr>
      \<and> fst (read_content (snd (clear_content w))) = Inr (JArr []))
   \<and> (disk w \<noteq> Missing \<and> disk w \<noteq> Blank \<and> io_ok w \<longrightarrow> fst (clear_content w) = Inr True)
   \<and> (disk w = Missing \<or> disk w = Blank \<longrightarrow> clear_content w = (Inr False, w))"
proof -
  have "disk w \<noteq> Missing \<and> disk w \<noteq> Blank
      \<and> snd (clear_content w) = w\<lparr>disk := Holds skeleton\<rparr>
      \<and> fst (read_content (snd (clear_content w))) = Inr (JArr [])"
    if t: "fst (clear_content w) = Inr True"
  proof -
    from t have p: "disk w \<noteq> Missing" "disk w \<noteq> Blank" "io_ok w"
      using clear_content_True by blast+
    then have c: "clear_content w = (Inr True, w\<lparr>disk := Holds skeleton\<rparr>)"
      by (rule clear_content_present)
    have "read_content (w\<lparr>disk := Holds skeleton\<rparr>) = (Inr (JArr []), w\<lparr>disk := Holds skeleton\<rparr>)"
      using p(3) by (simp add: read_content_skeleton)
    with c p show ?thesis by simp
  qed
  moreover have "fst (clear_content w) = Inr True"
    if "disk w \<noteq> Missing \<and> disk w \<noteq> Blank \<and> io_ok w"
    using that by (simp add: clear_content_present)
  moreover have "clear_content w = (Inr False, w)" if "disk w = Missing \<or> disk w = Blank"
    using that by (rule clear_content_absent)
  ultimately show ?thesis by blast
qed

theorem clear_content_spec_witness:
  "fst (clear_content (working (Holds (content_doc [rec_id 1 ''a''])))) = Inr True
   \<and> disk (snd (clear_content (working (Holds (content_doc [rec_id 1 ''a''])))))
       = Holds skeleton
   \<and> fst (read_content (snd (clear_content (working (Holds (content_doc [rec_id 1 ''a'']))))))
       = Inr (JArr [])
   \<and> clear_content (working Missing) = (Inr False, working Missing)"
proof -
  let ?w = "working (Holds (content_doc [rec_id 1 ''a'']))"
  have h: "disk ?w \<noteq> Missing \<and> disk ?w \<noteq> Blank \<and> io_ok ?w"
    by (simp add: working_def)
  have t: "fst (clear_content ?w) = Inr True"
    using clear_content_spec[of ?w] h by blast
  have s: "snd (clear_content ?w) = ?w\<lparr>disk := Holds skeleton\<rparr>"
    and r: "fst (read_content (snd (clear_content ?w))) = Inr (JArr [])"
    using clear_content_spec[of ?w] t by blast+
  have d: "disk (snd (clear_content ?w)) = Holds skeleton"
    by (simp add: s)
  have m: "clear_content (working Missing) = (Inr False, working Missing)"
    using clear_content_spec[of "working Missing"] by (simp add: working_def)
  show ?thesis
    using t d r m by blast
qed



text \<open>
  C3. The claim asks \<^verbatim>\<open>is_in_position\<close> for the index \<open>-1\<close>, with \<^verbatim>\<open>found\<close> false, when
  no record of \<^verbatim>\<open>Content\<close> is equal to the given one. On the document
  \<^verbatim>\<open>{"Content": [{"id": 1, "v": "a"}]}\<close> and the record \<^verbatim>\<open>{"id": 2, "v": "b"}\<close>, which is
  not equal to the stored record, the function returns \<^verbatim>\<open>(False, 1)\<close>: the counter of its
  loop, which has reached the number of records. It returns \<^verbatim>\<open>(False, -1)\<close> only where
  there is no document, as on a missing file.
\<close>

theorem is_in_position_no_match_index:
  "is_in_position (rec_id 2 ''b'') (working (Holds (content_doc [rec_id 1 ''a''])))
     = (Inr (False, 1), working (Holds (content_doc [rec_id 1 ''a''])))
   \<and> \<not> py_eq (rec_id 2 ''b'') (rec_id 1 ''a'')
   \<and> is_in_position (rec_id 2 ''b'') (working Missing) = (Inr (False, - 1), working Missing)"
  by (simp add: is_in_position_def read_def io_defs working_def content_doc_def rec_id_def
      empty_dict_def)

text \<open>
  C8, as stated, fails: in the readable document
  \<^verbatim>\<open>{"Content": [{"v": "a"}, {"id": 2, "v": "b"}]}\<close> the second record is the first one
  whose \<^verbatim>\<open>id\<close> equals 2, and \<^verbatim>\<open>search_by_uid(2, "id")\<close> raises \<^verbatim>\<open>KeyError\<close> at the
  first record instead of returning it.
\<close>

theorem search_by_uid_counterexample:
  "uid_is (rec_id 2 ''b'') ''id'' (JInt 2)
   \<and> \<not> uid_is (JObj True [(''v'', JStr ''a'')]) ''id'' (JInt 2)
   \<and> search_by_uid (JInt 2) ''id''
        (working (Holds (content_doc [JObj True [(''v'', JStr ''a'')], rec_id 2 ''b''])))
      = (Inl KeyError, working (Holds (content_doc [JObj True [(''v'', JStr ''a'')], rec_id 2 ''b''])))"
  by (simp add: search_by_uid_def read_def io_defs working_def content_doc_def rec_id_def
      empty_dict_def uid_is_def)

text \<open>
  C8, amended. Let the document be readable with a list as \<^verbatim>\<open>Content\<close>. If every record
  before the record \<open>r\<close> is falsy or carries the field \<open>uid\<close> with a value other than
  \<open>v\<close>, and \<open>r\<close> carries \<open>uid\<close> with a value equal to \<open>v\<close>, then
  \<^verbatim>\<open>search_by_uid(v, uid)\<close> returns found = true with \<open>r\<close>. If every record is falsy or
  carries \<open>uid\<close> with a value other than \<open>v\<close>, it returns found = false with
  \<^verbatim>\<open>None\<close>. The world is left as it was.
\<close>

theorem search_by_uid_spec:
  assumes "io_ok w" "disk w = Holds d" "getitem d ''Content'' = Inr (JArr xs)"
  shows "(xs = pre @ r # post \<and> (\<forall>p \<in> set pre. \<not> truthy p \<or> uid_differs p uid v) \<and> uid_is r uid v
            \<longrightarrow> search_by_uid v uid w = (Inr (True, r), w))
       \<and> ((\<forall>p \<in> set xs. \<not> truthy p \<or> uid_differs p uid v)
            \<longrightarrow> search_by_uid v uid w = (Inr (False, JNull), w))"
  using assms
  by (simp add: search_by_uid_Holds search_by_uid_loop_found search_by_uid_loop_not_found)

theorem search_by_uid_spec_witness:
  "search_by_uid (JInt 2) ''id'' (working (Holds (content_doc [rec_id 1 ''a'', JObj True [], rec_id 2 ''b''])))
     = (Inr (True, rec_id 2 ''b''), working (Holds (content_doc [rec_id 1 ''a'', JObj True [], rec_id 2 ''b''])))
   \<and> search_by_uid (JInt 3) ''id'' (working (Holds (content_doc [rec_id 1 ''a'', JObj True [], rec_id 2 ''b''])))
     = (Inr (False, JNull), working (Holds (content_doc [rec_id 1 ''a'', JObj True [], rec_id 2 ''b''])))"
proof -
  let ?xs = "[rec_id 1 ''a'', JObj True [], rec_id 2 ''b'']"
  let ?w = "working (Holds (content_doc ?xs))"
  have h: "io_ok ?w" "disk ?w = Holds (content_doc ?xs)"
    "getitem (content_doc ?xs) ''Content'' = Inr (JArr ?xs)"
    by (simp_all add: working_def content_doc_def)
  have a: "?xs = [rec_id 1 ''a'', JObj True []] @ rec_id 2 ''b'' # []
      \<and> (\<forall>p \<in> set [rec_id 1 ''a'', JObj True []]. \<not> truthy p \<or> uid_differs p ''id'' (JInt 2))
      \<and> uid_is (rec_id 2 ''b'') ''id'' (JInt 2)"
    by (simp add: rec_id_def uid_differs_def uid_is_def)
  have b: "\<forall>p \<in> set ?xs. \<not> truthy p \<or> uid_differs p ''id'' (JInt 3)"
    by (simp add: rec_id_def uid_differs_def)
  show ?thesis
    using search_by_uid_spec[OF h, of "[rec_id 1 ''a'', JObj True []]" "rec_id 2 ''b''" "[]" "''id''" "JInt 2"]
      search_by_uid_spec[OF h, of "[]" "JNull" "[]" "''id''" "JInt 3"] a b
    by blast
qed













end
